theory Spec2Isabelle
  imports Complex_Main
begin

section \<open>Tensors\<close>

text \<open>
  The layers of \<^verbatim>\<open>mpol/fourier.py\<close> work on dense torch tensors. A tensor is its shape
  together with its elements in row-major (C-contiguous) order. Floating-point numbers are
  read as the real and complex numbers they approximate: every theorem below is about
  exact arithmetic, rounding is not modelled.
\<close>

record 'a tensor =
  shape :: "nat list"
  elems :: "'a list"

definition wf_tensor :: "'a tensor \<Rightarrow> bool" where
  "wf_tensor t = (length (elems t) = prod_list (shape t))"

text \<open>\<^verbatim>\<open>Tensor.dim()\<close>: the number of axes.\<close>

definition dim_tensor :: "'a tensor \<Rightarrow> nat" where
  "dim_tensor t = length (shape t)"

text \<open>Row-major offset of a multi-index, and the multi-index of an offset.\<close>

fun ravel :: "nat list \<Rightarrow> nat list \<Rightarrow> nat" where
  "ravel (n # ns) (i # js) = i * prod_list ns + ravel ns js"
| "ravel _ _ = 0"

fun unravel :: "nat list \<Rightarrow> nat \<Rightarrow> nat list" where
  "unravel [] k = []"
| "unravel (n # ns) k = (k div prod_list ns) # unravel ns (k mod prod_list ns)"

definition valid_index :: "nat list \<Rightarrow> nat list \<Rightarrow> bool" where
  "valid_index ns js = list_all2 (<) js ns"

text \<open>\<^verbatim>\<open>t[i0, i1, ...]\<close> for a full multi-index inside the shape.\<close>

definition item :: "'a tensor \<Rightarrow> nat list \<Rightarrow> 'a" where
  "item t js = elems t ! ravel (shape t) js"

text \<open>The tensor of a given shape whose element at each multi-index is given by a function.\<close>

definition tabulate :: "nat list \<Rightarrow> (nat list \<Rightarrow> 'a) \<Rightarrow> 'a tensor" where
  "tabulate ns f = \<lparr>shape = ns, elems = map (\<lambda>k. f (unravel ns k)) [0..<prod_list ns]\<rparr>"

definition map_tensor :: "('a \<Rightarrow> 'b) \<Rightarrow> 'a tensor \<Rightarrow> 'b tensor" where
  "map_tensor f t = \<lparr>shape = shape t, elems = map f (elems t)\<rparr>"

text \<open>Promotion of a real tensor to complex (\<^verbatim>\<open>.type(torch.complex128)\<close>).\<close>

definition to_complex :: "real tensor \<Rightarrow> complex tensor" where
  "to_complex t = map_tensor complex_of_real t"

text \<open>A real scalar times a complex tensor.\<close>

definition scale_tensor :: "real \<Rightarrow> complex tensor \<Rightarrow> complex tensor" where
  "scale_tensor r t = map_tensor (\<lambda>z. complex_of_real r * z) t"

text \<open>\<^verbatim>\<open>t.unsqueeze(0)\<close>: a new leading axis of length one.\<close>

definition unsqueeze0 :: "'a tensor \<Rightarrow> 'a tensor" where
  "unsqueeze0 t = \<lparr>shape = 1 # shape t, elems = elems t\<rparr>"

section \<open>Errors\<close>

text \<open>
  The exceptions the code can raise. A failed \<^verbatim>\<open>assert\<close> carries its message; a read of
  an attribute that was never assigned carries the attribute's name.
\<close>

datatype error =
    AssertionError string
  | AttributeError string
  | IndexError
  | RuntimeError
  | ValueError

definition ebind :: "error + 'a \<Rightarrow> ('a \<Rightarrow> error + 'b) \<Rightarrow> error + 'b" where
  "ebind m f = (case m of Inl e \<Rightarrow> Inl e | Inr x \<Rightarrow> f x)"

text \<open>\<^verbatim>\<open>t[0]\<close>: the first slice along the leading axis.\<close>

definition select0 :: "'a tensor \<Rightarrow> error + 'a tensor" where
  "select0 t =
     (case shape t of
        [] \<Rightarrow> Inl IndexError
      | n # ns \<Rightarrow> if n = 0 then Inl IndexError
                 else Inr \<lparr>shape = ns, elems = take (prod_list ns) (elems t)\<rparr>)"

section \<open>Discrete Fourier transforms of the tensor library\<close>

text \<open>
  \<^verbatim>\<open>torch.fft.fftn(input, dim)\<close> is the discrete Fourier transform over the axes in
  \<^verbatim>\<open>dim\<close>: one-dimensional transforms along each listed axis, one after the other.
  Along an axis of length \<open>n\<close> the transform sends \<open>x\<close> to
  \<open>X k = (\<Sum>m<n. x m * exp (- 2 pi i k m / n))\<close>; the inverse has the opposite sign and
  divides by \<open>n\<close> (the default "backward" normalisation). An axis out of range is an
  IndexError, an axis of length zero a RuntimeError.
\<close>

definition fft_axis :: "nat \<Rightarrow> complex tensor \<Rightarrow> complex tensor" where
  "fft_axis a t =
     tabulate (shape t) (\<lambda>js. \<Sum>m<shape t ! a.
        item t (js[a := m]) * cis (- (2 * pi * real (js ! a) * real m / real (shape t ! a))))"

definition ifft_axis :: "nat \<Rightarrow> complex tensor \<Rightarrow> complex tensor" where
  "ifft_axis a t =
     tabulate (shape t) (\<lambda>js. (\<Sum>m<shape t ! a.
        item t (js[a := m]) * cis (2 * pi * real (js ! a) * real m / real (shape t ! a)))
        / of_nat (shape t ! a))"

definition fftn :: "complex tensor \<Rightarrow> nat list \<Rightarrow> error + complex tensor" where
  "fftn t dims =
     (if list_ex (\<lambda>d. dim_tensor t \<le> d) dims then Inl IndexError
      else if list_ex (\<lambda>d. shape t ! d = 0) dims then Inl RuntimeError
      else Inr (fold fft_axis dims t))"

definition ifftn :: "complex tensor \<Rightarrow> nat list \<Rightarrow> error + complex tensor" where
  "ifftn t dims =
     (if list_ex (\<lambda>d. dim_tensor t \<le> d) dims then Inl IndexError
      else if list_ex (\<lambda>d. shape t ! d = 0) dims then Inl RuntimeError
      else Inr (fold ifft_axis dims t))"

text \<open>
  \<^verbatim>\<open>torch.fft.fftshift(input, dim)\<close> rolls each listed axis by half its length
  (\<open>n div 2\<close>), so that the element at position \<open>i\<close> moves to \<open>(i + n div 2) mod n\<close>
  and the origin moves to the centre.
\<close>

definition fftshift_axis :: "nat \<Rightarrow> 'a tensor \<Rightarrow> 'a tensor" where
  "fftshift_axis a t =
     tabulate (shape t) (\<lambda>js.
        item t (js[a := (js ! a + (shape t ! a - shape t ! a div 2)) mod (shape t ! a)]))"

definition fftshift :: "'a tensor \<Rightarrow> nat list \<Rightarrow> error + 'a tensor" where
  "fftshift t dims =
     (if list_ex (\<lambda>d. dim_tensor t \<le> d) dims then Inl IndexError
      else Inr (fold fftshift_axis dims t))"

section \<open>Grid coordinates and construction arguments\<close>

text \<open>
  The fields of \<^verbatim>\<open>GridCoords\<close> that the layers read. The class itself lives in
  \<^verbatim>\<open>mpol/coordinates.py\<close>; its constructor is a parameter of the constructors below.
\<close>

record GridCoords =
  cell_size :: real
  npix :: int
  dl :: real

text \<open>
  Both constructors start with the same block, which decides what \<^verbatim>\<open>self.coords\<close>
  becomes (\<open>None\<close>: the attribute is not assigned):
  \<^verbatim>\<open>
  if coords:
      assert npix is None and cell_size is None, "..."
      self.coords = coords
  elif npix or cell_size:
      assert coords is None, "..."
      self.coords = GridCoords(cell_size=cell_size, npix=npix)
  \<close>
  Python truth values: an object of a class without \<^verbatim>\<open>__bool__\<close> is true,
  \<^verbatim>\<open>None\<close> is false, a number is true unless it is zero.
\<close>

definition init_coords ::
  "(real option \<Rightarrow> int option \<Rightarrow> error + GridCoords) \<Rightarrow>
   real option \<Rightarrow> int option \<Rightarrow> GridCoords option \<Rightarrow> error + GridCoords option" where
  "init_coords GridCoords_new cell_size_arg npix_arg coords_arg =
     (if coords_arg \<noteq> None then
        (if npix_arg = None \<and> cell_size_arg = None then Inr coords_arg
         else Inl (AssertionError
           ''npix and cell_size must be empty if precomputed GridCoords are supplied.''))
      else if (npix_arg \<noteq> None \<and> npix_arg \<noteq> Some 0)
              \<or> (cell_size_arg \<noteq> None \<and> cell_size_arg \<noteq> Some 0) then
        (if coords_arg = None
         then ebind (GridCoords_new cell_size_arg npix_arg) (\<lambda>gc. Inr (Some gc))
         else Inl (AssertionError
           ''GridCoords must be empty if npix and cell_size are supplied.''))
      else Inr None)"

section \<open>The uniform Fourier layer\<close>

text \<open>
  A \<^verbatim>\<open>FourierCube\<close> object: an attribute that has not been assigned yet is \<open>None\<close>.
\<close>

record FourierCube =
  fc_coords :: "GridCoords option"
  fc_vis :: "complex tensor option"

text \<open>\<^verbatim>\<open>FourierCube.__init__(cell_size=None, npix=None, coords=None)\<close>.\<close>

definition FourierCube_init ::
  "(real option \<Rightarrow> int option \<Rightarrow> error + GridCoords) \<Rightarrow>
   real option \<Rightarrow> int option \<Rightarrow> GridCoords option \<Rightarrow> error + FourierCube" where
  "FourierCube_init GridCoords_new cell_size_arg npix_arg coords_arg =
     ebind (init_coords GridCoords_new cell_size_arg npix_arg coords_arg)
       (\<lambda>co. Inr \<lparr>fc_coords = co, fc_vis = None\<rparr>)"

text \<open>
  \<^verbatim>\<open>FourierCube.forward(cube)\<close>: the assertion on the rank, then
  \<^verbatim>\<open>self.vis = self.coords.cell_size ** 2 * torch.fft.fftn(cube, dim=(1, 2))\<close>.
  The left factor is evaluated first. The new state of the layer is returned with the
  result.
\<close>

definition FourierCube_forward ::
  "FourierCube \<Rightarrow> real tensor \<Rightarrow> error + (FourierCube \<times> complex tensor)" where
  "FourierCube_forward self cube =
     (if dim_tensor cube \<noteq> 3 then Inl (AssertionError ''cube must be 3D'')
      else case fc_coords self of
        None \<Rightarrow> Inl (AttributeError ''coords'')
      | Some gc \<Rightarrow>
          ebind (fftn (to_complex cube) [1, 2])
            (\<lambda>ft. let vis = scale_tensor ((cell_size gc)\<^sup>2) ft
                  in Inr (self\<lparr>fc_vis := Some vis\<rparr>, vis)))"

text \<open>
  Modelled from the spec: \<^verbatim>\<open>utils.packed_cube_to_ground_cube\<close> is called by
  \<^verbatim>\<open>ground_vis\<close> but \<^verbatim>\<open>mpol/utils.py\<close> is not among the sources. The specification
  says that the ground-frame visibility cube "re-centers zero-frequency to the middle":
  a shift of the two spatial axes by half their length.
\<close>

definition packed_cube_to_ground_cube :: "'a tensor \<Rightarrow> error + 'a tensor" where
  "packed_cube_to_ground_cube packed_cube = fftshift packed_cube [1, 2]"

text \<open>
  The layer is a \<^verbatim>\<open>torch.nn.Module\<close>, which defines \<^verbatim>\<open>__getattr__\<close>: when the
  getter of a property raises an AttributeError, Python falls back to
  \<^verbatim>\<open>__getattr__\<close> with the property's name, and the module raises an AttributeError
  for that name. Any other exception of the getter propagates as it is.
\<close>

definition getattr_fallback :: "string \<Rightarrow> error + 'a \<Rightarrow> error + 'a" where
  "getattr_fallback name m =
     (case m of
        Inl (AttributeError _) \<Rightarrow> Inl (AttributeError name)
      | _ \<Rightarrow> m)"

text \<open>
  The properties \<^verbatim>\<open>ground_vis\<close>, \<^verbatim>\<open>ground_amp\<close> (\<^verbatim>\<open>torch.abs\<close>) and
  \<^verbatim>\<open>ground_phase\<close> (\<^verbatim>\<open>torch.angle\<close>, the argument in \<open>(-pi, pi]\<close>, zero at zero).
  Each returns the state of the layer with its value.
\<close>

definition ground_vis :: "FourierCube \<Rightarrow> error + (FourierCube \<times> complex tensor)" where
  "ground_vis self =
     getattr_fallback ''ground_vis''
       (case fc_vis self of
          None \<Rightarrow> Inl (AttributeError ''vis'')
        | Some v \<Rightarrow> ebind (packed_cube_to_ground_cube v) (\<lambda>g. Inr (self, g)))"

definition ground_amp :: "FourierCube \<Rightarrow> error + (FourierCube \<times> real tensor)" where
  "ground_amp self =
     getattr_fallback ''ground_amp''
       (ebind (ground_vis self) (\<lambda>(self', g). Inr (self', map_tensor cmod g)))"

definition ground_phase :: "FourierCube \<Rightarrow> error + (FourierCube \<times> real tensor)" where
  "ground_phase self =
     getattr_fallback ''ground_phase''
       (ebind (ground_vis self) (\<lambda>(self', g). Inr (self', map_tensor Arg g)))"

text \<open>
  The inverse of the layer, as the round-trip property of the specification words it: undo
  the scaling by \<open>cell_size\<^sup>2\<close>, then take the inverse transform over the same two axes.
\<close>

definition FourierCube_inverse :: "GridCoords \<Rightarrow> complex tensor \<Rightarrow> error + complex tensor" where
  "FourierCube_inverse gc vis = ifftn (scale_tensor (1 / (cell_size gc)\<^sup>2) vis) [1, 2]"

section \<open>The non-uniform Fourier layer\<close>

text \<open>
  A \<^verbatim>\<open>NuFFTNarrow\<close> object. The constructor fails unless \<^verbatim>\<open>self.coords\<close> is assigned,
  so every object has it. \<^verbatim>\<open>nufft_ob\<close> is the \<^verbatim>\<open>torchkbnufft.KbNufft\<close> object: a
  function of an image batch and a trajectory, external to this repository.
\<close>

record NuFFTNarrow =
  nu_coords :: GridCoords
  nu_nufft_ob :: "complex tensor \<Rightarrow> real tensor \<Rightarrow> error + complex tensor"
  nu_k_traj :: "real tensor option"

text \<open>
  \<^verbatim>\<open>torch.tensor(rows)\<close> for a list of one-dimensional arrays: the rows must have one
  length.
\<close>

definition torch_tensor :: "'a list list \<Rightarrow> error + 'a tensor" where
  "torch_tensor rows =
     (case rows of
        [] \<Rightarrow> Inr \<lparr>shape = [0], elems = []\<rparr>
      | r # rs \<Rightarrow>
          if list_all (\<lambda>q. length q = length r) rs
          then Inr \<lparr>shape = [length rows, length r], elems = concat rows\<rparr>
          else Inl ValueError)"

text \<open>
  \<^verbatim>\<open>_klambda_to_radpix\<close>, on an array of spatial frequencies:
  \<^verbatim>\<open>klambda * 1e3 * 2 * np.pi * self.coords.dl\<close>.
\<close>

definition klambda_to_radpix :: "NuFFTNarrow \<Rightarrow> real list \<Rightarrow> real list" where
  "klambda_to_radpix self klambda =
     (let u_lam = map (\<lambda>k. k * 1000) klambda;
          u_rad_per_rad = map (\<lambda>k. k * 2 * pi) u_lam;
          u_rad_per_pix = map (\<lambda>k. k * dl (nu_coords self)) u_rad_per_rad
      in u_rad_per_pix)"

text \<open>\<^verbatim>\<open>_assemble_ktraj\<close>: \<^verbatim>\<open>torch.tensor([vv_radpix, uu_radpix])\<close>.\<close>

definition assemble_ktraj :: "NuFFTNarrow \<Rightarrow> real list \<Rightarrow> real list \<Rightarrow> error + real tensor" where
  "assemble_ktraj self uu vv =
     (let uu_radpix = klambda_to_radpix self uu;
          vv_radpix = klambda_to_radpix self vv
      in torch_tensor [vv_radpix, uu_radpix])"

text \<open>
  \<^verbatim>\<open>NuFFTNarrow.__init__(cell_size=None, npix=None, coords=None, uu=None, vv=None)\<close>.
  Reading \<^verbatim>\<open>self.coords.npix\<close> fails when the first block assigned nothing.
\<close>

definition NuFFTNarrow_init ::
  "(int \<times> int \<Rightarrow> complex tensor \<Rightarrow> real tensor \<Rightarrow> error + complex tensor) \<Rightarrow>
   (real option \<Rightarrow> int option \<Rightarrow> error + GridCoords) \<Rightarrow>
   real option \<Rightarrow> int option \<Rightarrow> GridCoords option \<Rightarrow>
   real list option \<Rightarrow> real list option \<Rightarrow> error + NuFFTNarrow" where
  "NuFFTNarrow_init KbNufft GridCoords_new cell_size_arg npix_arg coords_arg uu vv =
     ebind (init_coords GridCoords_new cell_size_arg npix_arg coords_arg)
       (\<lambda>co. case co of
          None \<Rightarrow> Inl (AttributeError ''coords'')
        | Some gc \<Rightarrow>
            (let self = \<lparr>nu_coords = gc, nu_nufft_ob = KbNufft (npix gc, npix gc),
                         nu_k_traj = None\<rparr>
             in case (uu, vv) of
                  (Some u, Some v) \<Rightarrow>
                    ebind (assemble_ktraj self u v) (\<lambda>kt. Inr (self\<lparr>nu_k_traj := Some kt\<rparr>))
                | _ \<Rightarrow> Inr self))"

text \<open>
  \<^verbatim>\<open>NuFFTNarrow.forward(cube, uu=None, vv=None)\<close>, in its two parts. First the choice
  of the trajectory:
  \<^verbatim>\<open>
  if (uu is not None) and (vv is not None):
      k_traj = self._assemble_ktraj(uu, vv)
  else:
      k_traj = self.k_traj
  \<close>
\<close>

definition forward_k_traj ::
  "NuFFTNarrow \<Rightarrow> real list option \<Rightarrow> real list option \<Rightarrow> error + real tensor" where
  "forward_k_traj self uu vv =
     (case (uu, vv) of
        (Some u, Some v) \<Rightarrow> assemble_ktraj self u v
      | _ \<Rightarrow> (case nu_k_traj self of
                None \<Rightarrow> Inl (AttributeError ''k_traj'')
              | Some kt \<Rightarrow> Inr kt))"

text \<open>
  Then the transform at that trajectory: shift, promote to complex, add the batch axis,
  call the primitive, scale by \<open>cell_size\<^sup>2\<close>, drop the batch axis.
\<close>

definition forward_at :: "NuFFTNarrow \<Rightarrow> real tensor \<Rightarrow> real tensor \<Rightarrow> error + complex tensor" where
  "forward_at self cube k_traj =
     ebind (fftshift cube [1, 2])
       (\<lambda>shifted.
          let complexed = to_complex shifted;
              expanded = unsqueeze0 complexed
          in ebind (nu_nufft_ob self expanded k_traj)
               (\<lambda>raw. let output = scale_tensor ((cell_size (nu_coords self))\<^sup>2) raw
                      in select0 output))"

definition NuFFTNarrow_forward ::
  "NuFFTNarrow \<Rightarrow> real tensor \<Rightarrow> real list option \<Rightarrow> real list option
     \<Rightarrow> error + complex tensor" where
  "NuFFTNarrow_forward self cube uu vv =
     ebind (forward_k_traj self uu vv) (forward_at self cube)"

section \<open>Index arithmetic\<close>

lemma valid_index_Nil [simp]: "valid_index [] js \<longleftrightarrow> js = []"
  by (simp add: valid_index_def)

lemma valid_index_Cons:
  "valid_index (n # ns) js \<longleftrightarrow> (\<exists>i ks. js = i # ks \<and> i < n \<and> valid_index ns ks)"
  by (auto simp: valid_index_def list_all2_Cons2)

lemma valid_index_Cons_Cons [simp]:
  "valid_index (n # ns) (i # ks) \<longleftrightarrow> i < n \<and> valid_index ns ks"
  by (simp add: valid_index_def)

lemma valid_index_length: "valid_index ns js \<Longrightarrow> length js = length ns"
  by (simp add: valid_index_def list_all2_lengthD)

lemma valid_index_nth: "valid_index ns js \<Longrightarrow> a < length ns \<Longrightarrow> js ! a < ns ! a"
  by (simp add: valid_index_def list_all2_conv_all_nth)

lemma valid_index_update:
  "valid_index ns js \<Longrightarrow> m < ns ! a \<Longrightarrow> valid_index ns (js[a := m])"
  by (cases "a < length js")
     (auto simp: valid_index_def list_all2_conv_all_nth nth_list_update)

lemma ravel_less: "valid_index ns js \<Longrightarrow> ravel ns js < prod_list ns"
proof (induction ns arbitrary: js)
  case Nil
  then show ?case by simp
next
  case (Cons n ns)
  then obtain i ks where js: "js = i # ks" and i: "i < n" and ks: "valid_index ns ks"
    by (auto simp: valid_index_Cons)
  have r: "ravel ns ks < prod_list ns" by (rule Cons.IH [OF ks])
  have "i * prod_list ns + ravel ns ks < i * prod_list ns + prod_list ns"
    using r by simp
  also have "\<dots> = Suc i * prod_list ns" by simp
  also have "\<dots> \<le> n * prod_list ns"
    using i by (intro mult_le_mono1) simp
  finally show ?case by (simp add: js)
qed

lemma unravel_ravel: "valid_index ns js \<Longrightarrow> unravel ns (ravel ns js) = js"
proof (induction ns arbitrary: js)
  case Nil
  then show ?case by simp
next
  case (Cons n ns)
  then obtain i ks where js: "js = i # ks" and i: "i < n" and ks: "valid_index ns ks"
    by (auto simp: valid_index_Cons)
  have r: "ravel ns ks < prod_list ns" by (rule ravel_less [OF ks])
  show ?case using r Cons.IH [OF ks] by (simp add: js)
qed

lemma valid_unravel: "k < prod_list ns \<Longrightarrow> valid_index ns (unravel ns k)"
proof (induction ns arbitrary: k)
  case Nil
  then show ?case by simp
next
  case (Cons n ns)
  have pos: "0 < prod_list ns"
    using Cons.prems by (cases "prod_list ns = 0") auto
  have "k div prod_list ns < n"
    using Cons.prems pos by (simp add: less_mult_imp_div_less mult.commute)
  moreover have "valid_index ns (unravel ns (k mod prod_list ns))"
    using pos by (intro Cons.IH) simp
  ultimately show ?case by simp
qed

lemma ravel_unravel: "k < prod_list ns \<Longrightarrow> ravel ns (unravel ns k) = k"
proof (induction ns arbitrary: k)
  case Nil
  then show ?case by simp
next
  case (Cons n ns)
  have pos: "0 < prod_list ns"
    using Cons.prems by (cases "prod_list ns = 0") auto
  have "ravel ns (unravel ns (k mod prod_list ns)) = k mod prod_list ns"
    using pos by (intro Cons.IH) simp
  then show ?case by simp
qed

lemma length_unravel [simp]: "length (unravel ns k) = length ns"
  by (induction ns arbitrary: k) auto

lemma shape_tabulate [simp]: "shape (tabulate ns f) = ns"
  by (simp add: tabulate_def)

lemma wf_tabulate [simp]: "wf_tensor (tabulate ns f)"
  by (simp add: tabulate_def wf_tensor_def)

lemma item_tabulate: "valid_index ns js \<Longrightarrow> item (tabulate ns f) js = f js"
  using ravel_less [of ns js] by (simp add: item_def tabulate_def unravel_ravel)

lemma tensor_eqI:
  assumes "wf_tensor s" and "wf_tensor t" and "shape s = shape t"
    and "\<And>js. valid_index (shape t) js \<Longrightarrow> item s js = item t js"
  shows "s = t"
proof -
  have "elems s = elems t"
  proof (rule nth_equalityI)
    show "length (elems s) = length (elems t)"
      using assms(1-3) by (simp add: wf_tensor_def)
  next
    fix k assume "k < length (elems s)"
    then have k: "k < prod_list (shape t)"
      using assms(1,3) by (simp add: wf_tensor_def)
    have "item s (unravel (shape t) k) = item t (unravel (shape t) k)"
      by (rule assms(4) [OF valid_unravel [OF k]])
    then show "elems s ! k = elems t ! k"
      using k assms(3) by (simp add: item_def ravel_unravel)
  qed
  then show ?thesis using assms(3) by simp
qed

section \<open>One-dimensional transforms and their inverses\<close>

lemma cis_eq_one_imp: "cis x = 1 \<Longrightarrow> \<exists>i::int. x = of_int i * 2 * pi"
proof -
  assume "cis x = 1"
 then have "cos x = 1" by (simp add: complex_eq_iff)
  then show ?thesis by (simp add: cos_one_2pi_int)
qed

lemma root_sum:
  assumes j: "j < n" and m: "m < n"
  shows "(\<Sum>k<n. cis (2 * pi * real k * (real j - real m) / real n))
           = (if j = m then of_nat n else 0)"
proof (cases "j = m")
  case True
  then show ?thesis by simp
next
  case False
  define th where "th = 2 * pi * (real j - real m) / real n"
  have n: "0 < n" using j by simp
  have pw: "cis (2 * pi * real k * (real j - real m) / real n) = cis th ^ k" for k
    by (simp add: DeMoivre th_def algebra_simps)
  have ne: "cis th \<noteq> 1"
  proof
    assume "cis th = 1"
    then obtain i :: int where i: "th = of_int i * 2 * pi"
      using cis_eq_one_imp by blast
    then have "(2 * pi) * ((real j - real m) / real n) = (2 * pi) * of_int i"
      by (simp add: th_def)
    then have "(real j - real m) / real n = of_int i"
      using pi_gt_zero by (simp only: mult_cancel_left) auto
    then have "real j - real m = of_int i * real n"
      using n by (simp add: field_simps)
    then have "real_of_int (int j - int m) = real_of_int (i * int n)"
      by simp
    then have e: "int j - int m = i * int n"
      by (simp only: of_int_eq_iff)
    have "\<bar>int j - int m\<bar> < int n" using j m by linarith
    then have "\<bar>i\<bar> * int n < 1 * int n" using e by (simp add: abs_mult)
    then have "\<bar>i\<bar> < 1" using n by (simp only: mult_less_cancel_right)
    then have "i = 0" by linarith
    then show False using e False by simp
  qed
  have "cis th ^ n = cis (2 * pi * (real j - real m))"
    using n by (simp add: DeMoivre th_def)
  also have "\<dots> = cis (2 * pi * of_int (int j - int m))" by simp
  also have "\<dots> = 1" by (rule cis_multiple_2pi) simp
  finally have one: "cis th ^ n = 1" .
  have "(\<Sum>k<n. cis th ^ k) = (cis th ^ n - 1) / (cis th - 1)"
    by (rule geometric_sum [OF ne])
  then show ?thesis using False by (simp add: pw one)
qed

lemma shape_fft_axis [simp]: "shape (fft_axis a t) = shape t"
  by (simp add: fft_axis_def)

lemma shape_ifft_axis [simp]: "shape (ifft_axis a t) = shape t"
  by (simp add: ifft_axis_def)

lemma wf_fft_axis [simp]: "wf_tensor (fft_axis a t)"
  by (simp add: fft_axis_def)

lemma wf_ifft_axis [simp]: "wf_tensor (ifft_axis a t)"
  by (simp add: ifft_axis_def)

lemma item_fft_axis:
  "valid_index (shape t) js \<Longrightarrow>
   item (fft_axis a t) js =
     (\<Sum>m<shape t ! a. item t (js[a := m])
        * cis (- (2 * pi * real (js ! a) * real m / real (shape t ! a))))"
  by (simp add: fft_axis_def item_tabulate)

lemma item_ifft_axis:
  "valid_index (shape t) js \<Longrightarrow>
   item (ifft_axis a t) js =
     (\<Sum>m<shape t ! a. item t (js[a := m])
        * cis (2 * pi * real (js ! a) * real m / real (shape t ! a))) / of_nat (shape t ! a)"
  by (simp add: ifft_axis_def item_tabulate)

lemma ifft_fft_axis:
  assumes wf: "wf_tensor t" and a: "a < length (shape t)"
  shows "ifft_axis a (fft_axis a t) = t"
proof (rule tensor_eqI)
  fix js assume v: "valid_index (shape t) js"
  define n where "n = shape t ! a"
  define j where "j = js ! a"
  define x where "x m = item t (js[a := m])" for m
  have len: "a < length js" using v a by (simp add: valid_index_length)
  have j: "j < n" unfolding j_def n_def by (rule valid_index_nth [OF v a])
  have inner: "item (fft_axis a t) (js[a := k])
      = (\<Sum>m<n. x m * cis (- (2 * pi * real k * real m / real n)))" if "k < n" for k
  proof -
    have "valid_index (shape t) (js[a := k])"
      using v that by (simp add: valid_index_update n_def)
    then show ?thesis using len by (simp add: item_fft_axis n_def x_def)
  qed
  have "item (ifft_axis a (fft_axis a t)) js
      = (\<Sum>k<n. item (fft_axis a t) (js[a := k]) * cis (2 * pi * real j * real k / real n))
          / of_nat n"
    using v by (simp add: item_ifft_axis n_def j_def)
  also have "(\<Sum>k<n. item (fft_axis a t) (js[a := k]) * cis (2 * pi * real j * real k / real n))
      = (\<Sum>k<n. \<Sum>m<n. x m * cis (2 * pi * real k * (real j - real m) / real n))"
  proof (rule sum.cong [OF refl])
    fix k assume "k \<in> {..<n}"
    then have k: "k < n" by simp
    have "cis (- (2 * pi * real k * real m / real n)) * cis (2 * pi * real j * real k / real n)
        = cis (2 * pi * real k * (real j - real m) / real n)" for m
      by (simp add: cis_mult algebra_simps diff_divide_distrib)
    then show "item (fft_axis a t) (js[a := k]) * cis (2 * pi * real j * real k / real n)
      = (\<Sum>m<n. x m * cis (2 * pi * real k * (real j - real m) / real n))"
      by (simp add: inner [OF k] sum_distrib_right mult.assoc)
  qed
  also have "\<dots> = (\<Sum>m<n. x m * (\<Sum>k<n. cis (2 * pi * real k * (real j - real m) / real n)))"
    by (subst sum.swap) (simp add: sum_distrib_left)
  also have "\<dots> = (\<Sum>m<n. x m * (if j = m then of_nat n else 0))"
    by (rule sum.cong [OF refl]) (simp add: root_sum [OF j])
  also have "\<dots> = (\<Sum>m<n. if m = j then x j * of_nat n else 0)"
    by (rule sum.cong [OF refl]) auto
  also have "\<dots> = x j * of_nat n"
    using j by simp
  finally have "item (ifft_axis a (fft_axis a t)) js = x j"
    using j by simp
  then show "item (ifft_axis a (fft_axis a t)) js = item t js"
    by (simp add: x_def j_def)
qed (use wf in simp_all)

section \<open>Transforms over the two spatial axes\<close>

lemma ifft_fft_axis_commute:
  assumes ab: "a \<noteq> b" and a: "a < length (shape t)" and b: "b < length (shape t)"
  shows "ifft_axis a (fft_axis b t) = fft_axis b (ifft_axis a t)"
proof (rule tensor_eqI)
  fix js assume "valid_index (shape (fft_axis b (ifft_axis a t))) js"
  then have v: "valid_index (shape t) js" by simp
  define na where "na = shape t ! a"
  define nb where "nb = shape t ! b"
  define x where "x m p = item t (js[a := m, b := p])" for m p
  define A where "A m = cis (2 * pi * real (js ! a) * real m / real na)" for m
  define B where "B p = cis (- (2 * pi * real (js ! b) * real p / real nb))" for p
  have la: "a < length js" and lb: "b < length js"
    using v a b by (simp_all add: valid_index_length)
  have inner_l: "item (fft_axis b t) (js[a := m]) = (\<Sum>p<nb. x m p * B p)" if "m < na" for m
  proof -
    have "valid_index (shape t) (js[a := m])"
      using v that by (simp add: valid_index_update na_def)
    then show ?thesis using ab by (simp add: item_fft_axis nb_def x_def B_def)
  qed
  have inner_r: "item (ifft_axis a t) (js[b := p]) = (\<Sum>m<na. x m p * A m) / of_nat na"
    if "p < nb" for p
  proof -
    have "valid_index (shape t) (js[b := p])"
      using v that by (simp add: valid_index_update nb_def)
    then show ?thesis
      using ab by (simp add: item_ifft_axis na_def x_def A_def list_update_swap [of a b])
  qed
  have "item (ifft_axis a (fft_axis b t)) js
      = (\<Sum>m<na. item (fft_axis b t) (js[a := m]) * A m) / of_nat na"
    using v by (simp add: item_ifft_axis na_def A_def)
  also have "(\<Sum>m<na. item (fft_axis b t) (js[a := m]) * A m)
      = (\<Sum>m<na. \<Sum>p<nb. x m p * A m * B p)"
  proof (rule sum.cong [OF refl])
    fix m assume "m \<in> {..<na}"
    then have "item (fft_axis b t) (js[a := m]) * A m = (\<Sum>p<nb. x m p * B p * A m)"
      by (simp add: inner_l sum_distrib_right)
    also have "\<dots> = (\<Sum>p<nb. x m p * A m * B p)"
      by (rule sum.cong [OF refl]) (simp add: mult_ac)
    finally show "item (fft_axis b t) (js[a := m]) * A m = (\<Sum>p<nb. x m p * A m * B p)" .
  qed
  finally have l: "item (ifft_axis a (fft_axis b t)) js
      = (\<Sum>m<na. \<Sum>p<nb. x m p * A m * B p) / of_nat na" .
  have "item (fft_axis b (ifft_axis a t)) js
      = (\<Sum>p<nb. item (ifft_axis a t) (js[b := p]) * B p)"
    using v by (simp add: item_fft_axis nb_def B_def)
  also have "\<dots> = (\<Sum>p<nb. (\<Sum>m<na. x m p * A m * B p) / of_nat na)"
    by (rule sum.cong [OF refl]) (simp add: inner_r sum_distrib_right divide_simps)
  also have "\<dots> = (\<Sum>p<nb. \<Sum>m<na. x m p * A m * B p) / of_nat na"
    by (simp add: sum_divide_distrib)
  also have "(\<Sum>p<nb. \<Sum>m<na. x m p * A m * B p) = (\<Sum>m<na. \<Sum>p<nb. x m p * A m * B p)"
    by (rule sum.swap)
  finally show "item (ifft_axis a (fft_axis b t)) js = item (fft_axis b (ifft_axis a t)) js"
    using l by simp
qed simp_all

lemma shape_map_tensor [simp]: "shape (map_tensor f t) = shape t"
  by (simp add: map_tensor_def)

lemma wf_map_tensor [simp]: "wf_tensor (map_tensor f t) = wf_tensor t"
  by (simp add: map_tensor_def wf_tensor_def)

lemma item_map_tensor:
  "wf_tensor t \<Longrightarrow> valid_index (shape t) js \<Longrightarrow> item (map_tensor f t) js = f (item t js)"
  using ravel_less [of "shape t" js] by (simp add: map_tensor_def item_def wf_tensor_def)

lemma map_tensor_comp: "map_tensor f (map_tensor g t) = map_tensor (f \<circ> g) t"
  by (simp add: map_tensor_def)

lemma map_tensor_id: "(\<And>x. f x = x) \<Longrightarrow> map_tensor f t = t"
  by (simp add: map_tensor_def map_idI)

lemma unscale_scale: "r \<noteq> 0 \<Longrightarrow> scale_tensor (1 / r) (scale_tensor r t) = t"
  by (simp add: scale_tensor_def map_tensor_comp map_tensor_id)

lemma fftn_12:
  assumes "shape t = [c, h, w]" and "0 < h" and "0 < w"
  shows "fftn t [1, 2] = Inr (fft_axis 2 (fft_axis 1 t))"
  using assms by (simp add: fftn_def dim_tensor_def)

lemma ifftn_12:
  assumes "shape t = [c, h, w]" and "0 < h" and "0 < w"
  shows "ifftn t [1, 2] = Inr (ifft_axis 2 (ifft_axis 1 t))"
  using assms by (simp add: ifftn_def dim_tensor_def)

lemma ifftn_fftn_12:
  assumes wf: "wf_tensor t" and sh: "shape t = [c, h, w]" and h: "0 < h" and w: "0 < w"
  shows "ifftn (fft_axis 2 (fft_axis 1 t)) [1, 2] = Inr t"
proof -
  have "ifft_axis 2 (ifft_axis 1 (fft_axis 2 (fft_axis 1 t)))
      = ifft_axis 2 (fft_axis 2 (ifft_axis 1 (fft_axis 1 t)))"
    using sh by (subst ifft_fft_axis_commute) simp_all
  also have "\<dots> = ifft_axis 2 (fft_axis 2 t)"
    using wf sh by (simp add: ifft_fft_axis)
  also have "\<dots> = t"
    using wf sh by (simp add: ifft_fft_axis)
  finally have e: "ifft_axis 2 (ifft_axis 1 (fft_axis 2 (fft_axis 1 t))) = t" .
  have "ifftn (fft_axis 2 (fft_axis 1 t)) [1, 2]
      = Inr (ifft_axis 2 (ifft_axis 1 (fft_axis 2 (fft_axis 1 t))))"
    by (rule ifftn_12 [OF _ h w]) (simp add: sh)
  then show ?thesis by (simp only: e)
qed

lemma item_fft2:
  assumes sh: "shape t = [nc, h, w]" and c: "c < nc" and k1: "k1 < h" and k2: "k2 < w"
  shows "item (fft_axis 2 (fft_axis 1 t)) [c, k1, k2]
      = (\<Sum>n1<h. \<Sum>n2<w. item t [c, n1, n2]
           * cis (- (2 * pi * (real k1 * real n1 / real h + real k2 * real n2 / real w))))"
proof -
  have inner: "item (fft_axis 1 t) [c, k1, n2]
      = (\<Sum>n1<h. item t [c, n1, n2] * cis (- (2 * pi * real k1 * real n1 / real h)))"
    if "n2 < w" for n2
    using sh c k1 that by (simp add: item_fft_axis)
  have "item (fft_axis 2 (fft_axis 1 t)) [c, k1, k2]
      = (\<Sum>n2<w. item (fft_axis 1 t) [c, k1, n2]
           * cis (- (2 * pi * real k2 * real n2 / real w)))"
    using sh c k1 k2 by (simp add: item_fft_axis)
  also have "\<dots> = (\<Sum>n2<w. \<Sum>n1<h. item t [c, n1, n2]
           * cis (- (2 * pi * (real k1 * real n1 / real h + real k2 * real n2 / real w))))"
  proof (rule sum.cong [OF refl])
    fix n2 assume "n2 \<in> {..<w}"
    then have n2: "n2 < w" by simp
    have "item (fft_axis 1 t) [c, k1, n2] * cis (- (2 * pi * real k2 * real n2 / real w))
        = (\<Sum>n1<h. item t [c, n1, n2] * cis (- (2 * pi * real k1 * real n1 / real h))
             * cis (- (2 * pi * real k2 * real n2 / real w)))"
      by (simp only: inner [OF n2] sum_distrib_right)
    also have "\<dots> = (\<Sum>n1<h. item t [c, n1, n2]
           * cis (- (2 * pi * (real k1 * real n1 / real h + real k2 * real n2 / real w))))"
      by (rule sum.cong [OF refl]) (simp add: mult.assoc cis_mult algebra_simps)
    finally show "item (fft_axis 1 t) [c, k1, n2] * cis (- (2 * pi * real k2 * real n2 / real w))
        = (\<Sum>n1<h. item t [c, n1, n2]
           * cis (- (2 * pi * (real k1 * real n1 / real h + real k2 * real n2 / real w))))" .
  qed
  finally show ?thesis by (subst sum.swap)
qed

section \<open>Shapes and elements of the layer's tensors\<close>

lemma shape_to_complex [simp]: "shape (to_complex t) = shape t"
  by (simp add: to_complex_def)

lemma shape_scale_tensor [simp]: "shape (scale_tensor r t) = shape t"
  by (simp add: scale_tensor_def)

lemma wf_to_complex [simp]: "wf_tensor (to_complex t) = wf_tensor t"
  by (simp add: to_complex_def)

lemma wf_scale_tensor [simp]: "wf_tensor (scale_tensor r t) = wf_tensor t"
  by (simp add: scale_tensor_def)

lemma FourierCube_forward_3d:
  assumes sh: "shape cube = [nchan, h, w]" and h: "0 < h" and w: "0 < w"
    and co: "fc_coords self = Some gc"
  shows "FourierCube_forward self cube =
    Inr (self\<lparr>fc_vis := Some (scale_tensor ((cell_size gc)\<^sup>2)
                (fft_axis 2 (fft_axis 1 (to_complex cube))))\<rparr>,
         scale_tensor ((cell_size gc)\<^sup>2) (fft_axis 2 (fft_axis 1 (to_complex cube))))"
proof -
  have "fftn (to_complex cube) [1, 2] = Inr (fft_axis 2 (fft_axis 1 (to_complex cube)))"
    by (rule fftn_12 [OF _ h w]) (simp add: sh)
  then show ?thesis
    using sh co by (simp add: FourierCube_forward_def dim_tensor_def ebind_def Let_def)
qed

lemma shape_fftshift_axis [simp]: "shape (fftshift_axis a t) = shape t"
  by (simp add: fftshift_axis_def)

lemma wf_fftshift_axis [simp]: "wf_tensor (fftshift_axis a t)"
  by (simp add: fftshift_axis_def)

lemma item_fftshift_axis:
  "valid_index (shape t) js \<Longrightarrow>
   item (fftshift_axis a t) js =
     item t (js[a := (js ! a + (shape t ! a - shape t ! a div 2)) mod (shape t ! a)])"
  by (simp add: fftshift_axis_def item_tabulate)

lemma shift_back: "j < n \<Longrightarrow> ((j + n div 2) mod n + (n - n div 2)) mod n = (j :: nat)"
proof -
  assume j: "j < n"
  have "((j + n div 2) mod n + (n - n div 2)) mod n = (j + n div 2 + (n - n div 2)) mod n"
    by (rule mod_add_left_eq)
  also have "j + n div 2 + (n - n div 2) = j + n" by simp
  also have "(j + n) mod n = j" using j by simp
  finally show ?thesis .
qed

lemma item_fftshift_axis_moved:
  assumes v: "valid_index (shape t) js" and a: "a < length (shape t)"
  shows "item (fftshift_axis a t) (js[a := (js ! a + shape t ! a div 2) mod (shape t ! a)])
       = item t js"
proof -
  define n where "n = shape t ! a"
  define j where "j = js ! a"
  have j: "j < n" unfolding j_def n_def by (rule valid_index_nth [OF v a])
  have len: "a < length js" using v a by (simp add: valid_index_length)
  have v': "valid_index (shape t) (js[a := (j + n div 2) mod n])"
    using j by (intro valid_index_update [OF v]) (simp add: n_def [symmetric])
  have "item (fftshift_axis a t) (js[a := (j + n div 2) mod n])
      = item t (js[a := ((j + n div 2) mod n + (n - n div 2)) mod n])"
    using len by (simp add: item_fftshift_axis [OF v'] n_def [symmetric])
  also have "\<dots> = item t (js[a := j])" by (simp only: shift_back [OF j])
  also have "\<dots> = item t js" by (simp add: j_def)
  finally show ?thesis by (simp only: j_def n_def)
qed


lemma item_fftshift2:
  assumes sh: "shape t = [nc, h, w]" and c: "c < nc" and i: "i < h" and j: "j < w"
  shows "item (fftshift_axis 2 (fftshift_axis 1 t)) [c, (i + h div 2) mod h, (j + w div 2) mod w]
       = item t [c, i, j]"
proof -
  have "item (fftshift_axis 2 (fftshift_axis 1 t))
          ([c, (i + h div 2) mod h, j]
             [2 := ([c, (i + h div 2) mod h, j] ! 2 + shape (fftshift_axis 1 t) ! 2 div 2)
                     mod (shape (fftshift_axis 1 t) ! 2)])
      = item (fftshift_axis 1 t) [c, (i + h div 2) mod h, j]"
    using sh c i j by (intro item_fftshift_axis_moved) simp_all
  moreover have "item (fftshift_axis 1 t)
          ([c, i, j][1 := ([c, i, j] ! 1 + shape t ! 1 div 2) mod (shape t ! 1)])
      = item t [c, i, j]"
    using sh c i j by (intro item_fftshift_axis_moved) simp_all
  ultimately show ?thesis using sh by simp
qed

lemma shape_fold_fft_axis [simp]: "shape (fold fft_axis dims t) = shape t"
  by (induction dims arbitrary: t) simp_all

lemma wf_fold_fft_axis: "wf_tensor t \<Longrightarrow> wf_tensor (fold fft_axis dims t)"
  by (induction dims arbitrary: t) simp_all

lemma FourierCube_forward_InrD:
  assumes "FourierCube_forward self cube = Inr (self', vis)"
  shows "self' = self\<lparr>fc_vis := Some vis\<rparr> \<and> shape vis = shape cube \<and> dim_tensor cube = 3"
  using assms
  by (auto simp: FourierCube_forward_def ebind_def fftn_def Let_def
           split: if_splits option.splits sum.splits)

lemma wf_unsqueeze0 [simp]: "wf_tensor (unsqueeze0 t) = wf_tensor t"
  by (simp add: unsqueeze0_def wf_tensor_def)

lemma shape_unsqueeze0: "shape (unsqueeze0 t) = 1 # shape t"
  by (simp add: unsqueeze0_def)

lemma item_unsqueeze0: "item (unsqueeze0 t) (0 # js) = item t js"
  by (simp add: item_def unsqueeze0_def)

lemma wf_fold_fftshift_axis: "dims \<noteq> [] \<Longrightarrow> wf_tensor (fold fftshift_axis dims t)"
  by (induction dims arbitrary: t rule: rev_induct) simp_all

lemma item_select0:
  assumes wf: "wf_tensor t" and sh: "shape t = n # ns" and n: "0 < n"
    and v: "valid_index ns js"
  shows "select0 t = Inr \<lparr>shape = ns, elems = take (prod_list ns) (elems t)\<rparr>"
    and "item \<lparr>shape = ns, elems = take (prod_list ns) (elems t)\<rparr> js = item t (0 # js)"
  using ravel_less [OF v] sh n by (simp_all add: select0_def item_def)

section \<open>Facts about the trajectory and the constructors\<close>

lemma klambda_to_radpix_eq:
  "klambda_to_radpix self ks = map (\<lambda>k. k * 1000 * 2 * pi * dl (nu_coords self)) ks"
  by (simp add: klambda_to_radpix_def)

lemma assemble_ktraj_ragged:
  "length uu \<noteq> length vv \<Longrightarrow> assemble_ktraj self uu vv = Inl ValueError"
  by (simp add: assemble_ktraj_def torch_tensor_def klambda_to_radpix_eq)

lemma assemble_ktraj_cache_irrelevant:
  "assemble_ktraj (self\<lparr>nu_k_traj := other\<rparr>) u v = assemble_ktraj self u v"
  by (simp add: assemble_ktraj_def klambda_to_radpix_def)

lemma forward_at_cache_irrelevant:
  "forward_at (self\<lparr>nu_k_traj := other\<rparr>) cube kt = forward_at self cube kt"
  by (simp add: forward_at_def)

lemma init_coords_both_fails:
  assumes "coords_arg \<noteq> None" and "npix_arg \<noteq> None \<or> cell_size_arg \<noteq> None"
  shows "init_coords GridCoords_new cell_size_arg npix_arg coords_arg
       = Inl (AssertionError
           ''npix and cell_size must be empty if precomputed GridCoords are supplied.'')"
  using assms by (auto simp: init_coords_def)

lemma NuFFTNarrow_init_without_arguments:
  "NuFFTNarrow_init KbNufft GridCoords_new None None None uu vv = Inl (AttributeError ''coords'')"
  by (simp add: NuFFTNarrow_init_def init_coords_def ebind_def)

lemma ground_views_before_forward:
  assumes "fc_vis self = None"
  shows "ground_vis self = Inl (AttributeError ''ground_vis'')"
    and "ground_amp self = Inl (AttributeError ''ground_amp'')"
    and "ground_phase self = Inl (AttributeError ''ground_phase'')"
  using assms
  by (simp_all add: ground_vis_def ground_amp_def ground_phase_def getattr_fallback_def ebind_def)

lemma forward_without_coords:
  "dim_tensor cube = 3 \<Longrightarrow> fc_coords self = None \<Longrightarrow>
   FourierCube_forward self cube = Inl (AttributeError ''coords'')"
  by (simp add: FourierCube_forward_def)

section \<open>Properties\<close>

text \<open>
  C1. For a real image cube of shape \<open>(nchan, npix, npix)\<close>, \<^verbatim>\<open>FourierCube.forward\<close>
  returns (and stores in \<^verbatim>\<open>vis\<close>) a complex cube of the same shape whose element
  \<open>[c, k1, k2]\<close> is \<open>cell_size\<^sup>2\<close> times the two-dimensional discrete Fourier transform of
  channel \<open>c\<close> of the input at frequency \<open>(k1, k2)\<close>, zero frequency first (packed layout).
  Only channel \<open>c\<close> of the input enters channel \<open>c\<close> of the result.
\<close>

theorem forward_is_scaled_dft2:
  assumes wf: "wf_tensor cube" and sh: "shape cube = [nchan, n, n]" and n: "0 < n"
    and co: "fc_coords self = Some gc"
  shows "\<exists>vis. FourierCube_forward self cube = Inr (self\<lparr>fc_vis := Some vis\<rparr>, vis)
      \<and> wf_tensor vis \<and> shape vis = [nchan, n, n]
      \<and> (\<forall>c<nchan. \<forall>k1<n. \<forall>k2<n.
           item vis [c, k1, k2] =
             complex_of_real ((cell_size gc)\<^sup>2)
             * (\<Sum>n1<n. \<Sum>n2<n. complex_of_real (item cube [c, n1, n2])
                  * cis (- (2 * pi * (real k1 * real n1 / real n + real k2 * real n2 / real n)))))"
proof -
  define F where "F = fft_axis 2 (fft_axis 1 (to_complex cube))"
  define vis where "vis = scale_tensor ((cell_size gc)\<^sup>2) F"
  have run: "FourierCube_forward self cube = Inr (self\<lparr>fc_vis := Some vis\<rparr>, vis)"
    unfolding vis_def F_def by (rule FourierCube_forward_3d [OF sh n n co])
  have shF: "shape F = [nchan, n, n]" and wfF: "wf_tensor F"
    by (simp_all add: F_def sh)
  have el: "item vis [c, k1, k2] =
       complex_of_real ((cell_size gc)\<^sup>2)
       * (\<Sum>n1<n. \<Sum>n2<n. complex_of_real (item cube [c, n1, n2])
            * cis (- (2 * pi * (real k1 * real n1 / real n + real k2 * real n2 / real n))))"
    if c: "c < nchan" and k1: "k1 < n" and k2: "k2 < n" for c k1 k2
  proof -
    have "item vis [c, k1, k2] = complex_of_real ((cell_size gc)\<^sup>2) * item F [c, k1, k2]"
      unfolding vis_def scale_tensor_def
      by (rule item_map_tensor [OF wfF]) (simp add: shF c k1 k2)
    also have "item F [c, k1, k2]
        = (\<Sum>n1<n. \<Sum>n2<n. item (to_complex cube) [c, n1, n2]
             * cis (- (2 * pi * (real k1 * real n1 / real n + real k2 * real n2 / real n))))"
      unfolding F_def by (rule item_fft2 [OF _ c k1 k2]) (simp add: sh)
    also have "\<dots> = (\<Sum>n1<n. \<Sum>n2<n. complex_of_real (item cube [c, n1, n2])
             * cis (- (2 * pi * (real k1 * real n1 / real n + real k2 * real n2 / real n))))"
    proof (intro sum.cong refl)
      fix n1 n2 assume "n1 \<in> {..<n}" and "n2 \<in> {..<n}"
      then have "valid_index (shape cube) [c, n1, n2]" using c by (simp add: sh)
      then have "item (to_complex cube) [c, n1, n2] = complex_of_real (item cube [c, n1, n2])"
        unfolding to_complex_def by (rule item_map_tensor [OF wf])
      then show "item (to_complex cube) [c, n1, n2]
             * cis (- (2 * pi * (real k1 * real n1 / real n + real k2 * real n2 / real n)))
          = complex_of_real (item cube [c, n1, n2])
             * cis (- (2 * pi * (real k1 * real n1 / real n + real k2 * real n2 / real n)))"
        by simp
    qed
    finally show ?thesis .
  qed
  have "wf_tensor vis" "shape vis = [nchan, n, n]"
    by (simp_all add: vis_def wfF shF)
  with run el show ?thesis by blast
qed

theorem forward_is_scaled_dft2_witness:
  "wf_tensor \<lparr>shape = [1, 2, 2], elems = [1, 2, 3, 4 :: real]\<rparr>
   \<and> shape \<lparr>shape = [1, 2, 2], elems = [1, 2, 3, 4 :: real]\<rparr> = [1, 2, 2]
   \<and> (0 :: nat) < 2
   \<and> fc_coords \<lparr>fc_coords = Some \<lparr>cell_size = 2, npix = 2, dl = 1\<rparr>, fc_vis = None\<rparr>
        = Some \<lparr>cell_size = 2, npix = 2, dl = 1\<rparr>
   \<and> (\<exists>vis. FourierCube_forward
          \<lparr>fc_coords = Some \<lparr>cell_size = 2, npix = 2, dl = 1\<rparr>, fc_vis = None\<rparr>
          \<lparr>shape = [1, 2, 2], elems = [1, 2, 3, 4]\<rparr>
        = Inr (\<lparr>fc_coords = Some \<lparr>cell_size = 2, npix = 2, dl = 1\<rparr>, fc_vis = Some vis\<rparr>, vis)
      \<and> shape vis = [1, 2, 2] \<and> item vis [0, 0, 0] = 40 \<and> item vis [0, 1, 1] = 0)"
proof -
  define cube where "cube = \<lparr>shape = [1, 2, 2], elems = [1, 2, 3, 4 :: real]\<rparr>"
  define gc where "gc = \<lparr>cell_size = 2, npix = 2, dl = 1\<rparr>"
  define self where "self = \<lparr>fc_coords = Some gc, fc_vis = None\<rparr>"
  have h1: "wf_tensor cube" by (simp add: cube_def wf_tensor_def)
  have h2: "shape cube = [1, 2, 2]" by (simp add: cube_def)
  have h3: "(0 :: nat) < 2" by simp
  have h4: "fc_coords self = Some gc" by (simp add: self_def)
  from forward_is_scaled_dft2 [OF h1 h2 h3 h4]
  obtain vis where run: "FourierCube_forward self cube = Inr (self\<lparr>fc_vis := Some vis\<rparr>, vis)"
    and shv: "shape vis = [1, 2, 2]"
    and el: "\<forall>c<1. \<forall>k1<2. \<forall>k2<2.
           item vis [c, k1, k2] =
             complex_of_real ((cell_size gc)\<^sup>2)
             * (\<Sum>n1<2. \<Sum>n2<2. complex_of_real (item cube [c, n1, n2])
                  * cis (- (2 * pi * (real k1 * real n1 / real 2 + real k2 * real n2 / real 2))))"
    by (elim exE conjE)
  have "item vis [0, 0, 0] =
      complex_of_real ((cell_size gc)\<^sup>2)
      * (\<Sum>n1<2. \<Sum>n2<2. complex_of_real (item cube [0, n1, n2])
           * cis (- (2 * pi * (real 0 * real n1 / real 2 + real 0 * real n2 / real 2))))"
    using el by simp
  then have i00: "item vis [0, 0, 0] = 40"
    by (simp add: lessThan_Suc numeral_2_eq_2 gc_def cube_def item_def)
  have "item vis [0, 1, 1] =
      complex_of_real ((cell_size gc)\<^sup>2)
      * (\<Sum>n1<2. \<Sum>n2<2. complex_of_real (item cube [0, n1, n2])
           * cis (- (2 * pi * (real 1 * real n1 / real 2 + real 1 * real n2 / real 2))))"
    using el by simp
  then have i11: "item vis [0, 1, 1] = 0"
    by (simp add: lessThan_Suc numeral_2_eq_2 gc_def cube_def item_def complex_eq_iff)
  have "\<exists>vis. FourierCube_forward self cube = Inr (self\<lparr>fc_vis := Some vis\<rparr>, vis)
      \<and> shape vis = [1, 2, 2] \<and> item vis [0, 0, 0] = 40 \<and> item vis [0, 1, 1] = 0"
    using run shv i00 i11 by (intro exI conjI)
  with h1 h2 h3 h4 show ?thesis
    unfolding cube_def gc_def self_def by simp
qed

text \<open>
  C2. For \<open>u\<close> and \<open>v\<close> coordinate sequences of \<open>N\<close> samples each,
  \<^verbatim>\<open>_assemble_ktraj\<close> returns a tensor of shape \<open>(2, N)\<close> whose row 0 is the converted
  \<open>v\<close> and whose row 1 is the converted \<open>u\<close>, each coordinate multiplied by 1000, by
  2, by \<open>pi\<close> and by the pixel size \<open>dl\<close> of the grid.
\<close>

theorem assemble_ktraj_rows:
  assumes u: "length uu = N" and v: "length vv = N"
  shows "\<exists>kt. assemble_ktraj self uu vv = Inr kt
      \<and> wf_tensor kt \<and> shape kt = [2, N]
      \<and> (\<forall>j<N. item kt [0, j] = vv ! j * 1000 * 2 * pi * dl (nu_coords self)
              \<and> item kt [1, j] = uu ! j * 1000 * 2 * pi * dl (nu_coords self))"
proof -
  define conv where "conv k = k * 1000 * 2 * pi * dl (nu_coords self)" for k
  define kt where "kt = \<lparr>shape = [2, N], elems = map conv vv @ map conv uu\<rparr>"
  have run: "assemble_ktraj self uu vv = Inr kt"
    using u v by (simp add: assemble_ktraj_def torch_tensor_def klambda_to_radpix_eq kt_def conv_def)
  have wf: "wf_tensor kt" using u v by (simp add: kt_def wf_tensor_def)
  have el: "item kt [0, j] = conv (vv ! j) \<and> item kt [1, j] = conv (uu ! j)" if "j < N" for j
    using that u v by (simp add: kt_def item_def nth_append)
  show ?thesis
    using run wf el unfolding conv_def by (intro exI [of _ kt] conjI allI impI) (simp_all add: kt_def)
qed

theorem assemble_ktraj_rows_witness:
  "length [1, 2 :: real] = 2 \<and> length [3, 4 :: real] = 2
   \<and> (\<exists>kt. assemble_ktraj
          \<lparr>nu_coords = \<lparr>cell_size = 2, npix = 2, dl = 1 / 2\<rparr>,
           nu_nufft_ob = (\<lambda>img k. Inl RuntimeError), nu_k_traj = None\<rparr> [1, 2] [3, 4] = Inr kt
        \<and> shape kt = [2, 2]
        \<and> item kt [0, 0] = 3000 * pi \<and> item kt [0, 1] = 4000 * pi
        \<and> item kt [1, 0] = 1000 * pi \<and> item kt [1, 1] = 2000 * pi)"
proof -
  define self where "self = \<lparr>nu_coords = \<lparr>cell_size = 2, npix = 2, dl = 1 / 2\<rparr>,
    nu_nufft_ob = (\<lambda>(img :: complex tensor) (k :: real tensor).
      (Inl RuntimeError :: error + complex tensor)), nu_k_traj = None\<rparr>"
  have h1: "length [1, 2 :: real] = 2" and h2: "length [3, 4 :: real] = 2" by simp_all
  from assemble_ktraj_rows [OF h1 h2, of self]
  obtain kt where run: "assemble_ktraj self [1, 2] [3, 4] = Inr kt"
    and shk: "shape kt = [2, 2]"
    and el: "\<forall>j<2. item kt [0, j] = [3, 4] ! j * 1000 * 2 * pi * dl (nu_coords self)
              \<and> item kt [1, j] = [1, 2] ! j * 1000 * 2 * pi * dl (nu_coords self)"
    by (elim exE conjE)
  have e0: "item kt [0, 0] = 3000 * pi \<and> item kt [1, 0] = 1000 * pi"
    using el [rule_format, of 0] by (simp add: self_def)
  have e1: "item kt [0, 1] = 4000 * pi \<and> item kt [1, 1] = 2000 * pi"
    using el [rule_format, of 1] by (simp add: self_def)
  have "\<exists>kt. assemble_ktraj self [1, 2] [3, 4] = Inr kt \<and> shape kt = [2, 2]
        \<and> item kt [0, 0] = 3000 * pi \<and> item kt [0, 1] = 4000 * pi
        \<and> item kt [1, 0] = 1000 * pi \<and> item kt [1, 1] = 2000 * pi"
    using run shk e0 e1 by (intro exI [of _ kt]) simp
  then show ?thesis unfolding self_def by simp
qed

text \<open>
  C3. For an image cube of shape \<open>(nchan, npix, npix)\<close> and a trajectory of \<open>N\<close> samples,
  \<^verbatim>\<open>NuFFTNarrow.forward\<close> shifts the cube over its two spatial axes, promotes it to
  complex, adds a batch axis, calls the non-uniform FFT primitive at the trajectory, scales
  the result by \<open>cell_size\<^sup>2\<close> and drops the batch axis. The image handed to the
  primitive has shape \<open>(1, nchan, npix, npix)\<close>, and its element
  \<open>[0, c, (i + npix div 2) mod npix, (j + npix div 2) mod npix]\<close> is the pixel \<open>[c, i, j]\<close>
  of the cube as a complex number. Given the contract of the primitive (for such a batch
  and a trajectory of shape \<open>(2, N)\<close> it returns shape \<open>(1, nchan, N)\<close>), the call
  returns a tensor of shape \<open>(nchan, N)\<close> whose element \<open>[c, j]\<close> is \<open>cell_size\<^sup>2\<close> times
  the element \<open>[0, c, j]\<close> of what the primitive returned.
\<close>

theorem NuFFTNarrow_forward_steps:
  assumes sh: "shape cube = [nchan, n, n]"
    and kt: "forward_k_traj self uu vv = Inr kt" and shk: "shape kt = [2, N]"
    and contract: "\<And>img. wf_tensor img \<Longrightarrow> shape img = [1, nchan, n, n] \<Longrightarrow>
        \<exists>raw. nu_nufft_ob self img kt = Inr raw \<and> wf_tensor raw \<and> shape raw = [1, nchan, N]"
  shows "\<exists>img raw out. fftshift cube [1, 2] = Inr (fold fftshift_axis [1, 2] cube)
      \<and> img = unsqueeze0 (to_complex (fold fftshift_axis [1, 2] cube))
      \<and> wf_tensor img \<and> shape img = [1, nchan, n, n]
      \<and> (\<forall>c<nchan. \<forall>i<n. \<forall>j<n.
            item img [0, c, (i + n div 2) mod n, (j + n div 2) mod n]
              = complex_of_real (item cube [c, i, j]))
      \<and> nu_nufft_ob self img kt = Inr raw
      \<and> nu_nufft_ob self (unsqueeze0 (to_complex (fold fftshift_axis [1, 2] cube))) kt = Inr raw
      \<and> select0 (scale_tensor ((cell_size (nu_coords self))\<^sup>2) raw) = Inr out
      \<and> NuFFTNarrow_forward self cube uu vv = Inr out
      \<and> wf_tensor out \<and> shape out = [nchan, N]
      \<and> (\<forall>c<nchan. \<forall>j<N.
            item out [c, j]
              = complex_of_real ((cell_size (nu_coords self))\<^sup>2) * item raw [0, c, j])"
proof -
  define shifted where "shifted = fftshift_axis 2 (fftshift_axis 1 cube)"
  define expanded where "expanded = unsqueeze0 (to_complex (fold fftshift_axis [1, 2] cube))"
  have ex: "expanded = unsqueeze0 (to_complex shifted)"
    by (simp add: expanded_def shifted_def)
  have shsh: "shape shifted = [nchan, n, n]" and wfsh: "wf_tensor shifted"
    by (simp_all add: shifted_def sh)
  have wfe: "wf_tensor expanded"
    by (simp add: ex wfsh)
  have she: "shape expanded = [1, nchan, n, n]"
    by (simp add: ex shsh shape_unsqueeze0)
  have img_el: "item expanded [0, c, (i + n div 2) mod n, (j + n div 2) mod n]
      = complex_of_real (item cube [c, i, j])"
    if c: "c < nchan" and i: "i < n" and j: "j < n" for c i j
  proof -
    have v: "valid_index (shape shifted) [c, (i + n div 2) mod n, (j + n div 2) mod n]"
      using c i j by (simp add: shsh)
    have "item expanded [0, c, (i + n div 2) mod n, (j + n div 2) mod n]
        = item (to_complex shifted) [c, (i + n div 2) mod n, (j + n div 2) mod n]"
      unfolding ex by (rule item_unsqueeze0)
    also have "\<dots> = complex_of_real (item shifted [c, (i + n div 2) mod n, (j + n div 2) mod n])"
      unfolding to_complex_def by (rule item_map_tensor [OF wfsh v])
    also have "item shifted [c, (i + n div 2) mod n, (j + n div 2) mod n] = item cube [c, i, j]"
      unfolding shifted_def by (rule item_fftshift2 [OF sh c i j])
    finally show ?thesis .
  qed
  obtain raw where raw: "nu_nufft_ob self expanded kt = Inr raw"
    and wf: "wf_tensor raw" and shr: "shape raw = [1, nchan, N]"
    using contract [OF wfe she] by (elim exE conjE)
  define scaled where "scaled = scale_tensor ((cell_size (nu_coords self))\<^sup>2) raw"
  define out where "out = \<lparr>shape = [nchan, N], elems = take (prod_list [nchan, N]) (elems scaled)\<rparr>"
  have shs: "shape scaled = [1, nchan, N]" and wfs: "wf_tensor scaled"
    by (simp_all add: scaled_def shr wf)
  have sel: "select0 scaled = Inr out"
    by (simp add: select0_def shs out_def)
  have shift: "fftshift cube [1, 2] = Inr (fold fftshift_axis [1, 2] cube)"
    using sh by (simp add: fftshift_def dim_tensor_def)
  have run: "NuFFTNarrow_forward self cube uu vv = Inr out"
    using raw sel shift
    by (simp add: NuFFTNarrow_forward_def kt forward_at_def ebind_def Let_def scaled_def
          expanded_def)
  have wfo: "wf_tensor out"
    using wfs shs by (simp add: out_def wf_tensor_def)
  have el: "item out [c, j]
      = complex_of_real ((cell_size (nu_coords self))\<^sup>2) * item raw [0, c, j]"
    if c: "c < nchan" and j: "j < N" for c j
  proof -
    have v: "valid_index [nchan, N] [c, j]" using c j by simp
    have "item out [c, j] = item scaled [0, c, j]"
      unfolding out_def by (rule item_select0(2) [OF wfs shs _ v]) simp
    also have "\<dots> = complex_of_real ((cell_size (nu_coords self))\<^sup>2) * item raw [0, c, j]"
      unfolding scaled_def scale_tensor_def
      by (rule item_map_tensor [OF wf]) (simp add: shr c j)
    finally show ?thesis .
  qed
  have sho: "shape out = [nchan, N]" by (simp add: out_def)
  have raw': "nu_nufft_ob self (unsqueeze0 (to_complex (fold fftshift_axis [1, 2] cube))) kt
      = Inr raw"
    using raw by (simp only: expanded_def)
  have sel': "select0 (scale_tensor ((cell_size (nu_coords self))\<^sup>2) raw) = Inr out"
    using sel by (simp only: scaled_def)
  from shift expanded_def wfe she img_el raw raw' sel' run wfo sho el show ?thesis
    by (intro exI [of _ expanded] exI [of _ raw] exI [of _ out] conjI allI impI)
qed

theorem NuFFTNarrow_forward_steps_witness:
  "shape \<lparr>shape = [1, 2, 2], elems = [1, 2, 3, 4 :: real]\<rparr> = [1, 2, 2]
   \<and> forward_k_traj
        \<lparr>nu_coords = \<lparr>cell_size = 2, npix = 2, dl = 1 / 2\<rparr>,
         nu_nufft_ob = (\<lambda>img k. Inr \<lparr>shape = [1, 1, 2],
            elems = [item img [0, 0, 0, 0] * complex_of_real (elems k ! 0),
                     item img [0, 0, 1, 1] * complex_of_real (elems k ! 1)]\<rparr>),
         nu_k_traj = None\<rparr> (Some [1, 2]) (Some [3, 4])
       = Inr \<lparr>shape = [2, 2], elems = [3000 * pi, 4000 * pi, 1000 * pi, 2000 * pi]\<rparr>
   \<and> shape \<lparr>shape = [2, 2], elems = [3000 * pi, 4000 * pi, 1000 * pi, 2000 * pi]\<rparr> = [2, 2]
   \<and> (\<exists>img out.
          img = unsqueeze0 (to_complex (fold fftshift_axis [1, 2]
                  \<lparr>shape = [1, 2, 2], elems = [1, 2, 3, 4]\<rparr>))
        \<and> shape img = [1, 1, 2, 2]
        \<and> item img [0, 0, 0, 0] = 4 \<and> item img [0, 0, 0, 1] = 3
        \<and> item img [0, 0, 1, 0] = 2 \<and> item img [0, 0, 1, 1] = 1
        \<and> NuFFTNarrow_forward
          \<lparr>nu_coords = \<lparr>cell_size = 2, npix = 2, dl = 1 / 2\<rparr>,
           nu_nufft_ob = (\<lambda>img k. Inr \<lparr>shape = [1, 1, 2],
              elems = [item img [0, 0, 0, 0] * complex_of_real (elems k ! 0),
                       item img [0, 0, 1, 1] * complex_of_real (elems k ! 1)]\<rparr>),
           nu_k_traj = None\<rparr>
          \<lparr>shape = [1, 2, 2], elems = [1, 2, 3, 4]\<rparr> (Some [1, 2]) (Some [3, 4]) = Inr out
        \<and> wf_tensor out \<and> shape out = [1, 2]
        \<and> item out [0, 0] = complex_of_real (48000 * pi)
        \<and> item out [0, 1] = complex_of_real (16000 * pi))"
proof -
  define cube where "cube = \<lparr>shape = [1, 2, 2], elems = [1, 2, 3, 4 :: real]\<rparr>"
  define self where "self = \<lparr>nu_coords = \<lparr>cell_size = 2, npix = 2, dl = 1 / 2\<rparr>,
    nu_nufft_ob = (\<lambda>(img :: complex tensor) (k :: real tensor).
      (Inr \<lparr>shape = [1, 1, 2],
            elems = [item img [0, 0, 0, 0] * complex_of_real (elems k ! 0),
                     item img [0, 0, 1, 1] * complex_of_real (elems k ! 1)]\<rparr>
         :: error + complex tensor)),
    nu_k_traj = None\<rparr>"
  define kt where "kt = \<lparr>shape = [2, 2], elems = [3000 * pi, 4000 * pi, 1000 * pi, 2000 * pi]\<rparr>"
  have h1: "shape cube = [1, 2, 2]" by (simp add: cube_def)
  have h2: "forward_k_traj self (Some [1, 2]) (Some [3, 4]) = Inr kt"
    by (simp add: forward_k_traj_def assemble_ktraj_def klambda_to_radpix_def torch_tensor_def
          self_def kt_def)
  have h3: "shape kt = [2, 2]" by (simp add: kt_def)
  have h4: "\<exists>raw. nu_nufft_ob self img kt = Inr raw \<and> wf_tensor raw \<and> shape raw = [1, 1, 2]"
    for img by (simp add: self_def kt_def wf_tensor_def)
  from NuFFTNarrow_forward_steps [OF h1 h2 h3 h4]
  obtain img raw out
    where im: "img = unsqueeze0 (to_complex (fold fftshift_axis [1, 2] cube))"
    and shi: "shape img = [1, 1, 2, 2]"
    and iel: "\<forall>c<1. \<forall>i<2. \<forall>j<2.
            item img [0, c, (i + 2 div 2) mod 2, (j + 2 div 2) mod 2]
              = complex_of_real (item cube [c, i, j])"
    and raw: "nu_nufft_ob self img kt = Inr raw"
    and run: "NuFFTNarrow_forward self cube (Some [1, 2]) (Some [3, 4]) = Inr out"
    and wfo: "wf_tensor out" and sho: "shape out = [1, 2]"
    and el: "\<forall>c<1. \<forall>j<2. item out [c, j]
              = complex_of_real ((cell_size (nu_coords self))\<^sup>2) * item raw [0, c, j]"
    by (elim exE conjE)
  have i00: "item img [0, 0, 0, 0] = 4"
    using iel [rule_format, of 0 1 1] by (simp add: cube_def item_def)
  have i01: "item img [0, 0, 0, 1] = 3"
    using iel [rule_format, of 0 1 0] by (simp add: cube_def item_def)
  have i10: "item img [0, 0, 1, 0] = 2"
    using iel [rule_format, of 0 0 1] by (simp add: cube_def item_def)
  have i11: "item img [0, 0, 1, 1] = 1"
    using iel [rule_format, of 0 0 0] by (simp add: cube_def item_def)
  have rr: "raw = \<lparr>shape = [1, 1, 2],
      elems = [complex_of_real (12000 * pi), complex_of_real (4000 * pi)]\<rparr>"
    using raw i00 i11 by (auto simp: self_def kt_def)
  have e0: "item out [0, 0] = complex_of_real (48000 * pi)"
    using el [rule_format, of 0 0] by (simp add: rr self_def item_def)
  have e1: "item out [0, 1] = complex_of_real (16000 * pi)"
    using el [rule_format, of 0 1] by (simp add: rr self_def item_def)
  have "\<exists>img out. img = unsqueeze0 (to_complex (fold fftshift_axis [1, 2] cube))
        \<and> shape img = [1, 1, 2, 2]
        \<and> item img [0, 0, 0, 0] = 4 \<and> item img [0, 0, 0, 1] = 3
        \<and> item img [0, 0, 1, 0] = 2 \<and> item img [0, 0, 1, 1] = 1
        \<and> NuFFTNarrow_forward self cube (Some [1, 2]) (Some [3, 4]) = Inr out
        \<and> wf_tensor out \<and> shape out = [1, 2]
        \<and> item out [0, 0] = complex_of_real (48000 * pi)
        \<and> item out [0, 1] = complex_of_real (16000 * pi)"
    using im shi i00 i01 i10 i11 run wfo sho e0 e1
    by (intro exI [of _ img] exI [of _ out] conjI)
  with h1 h2 h3 show ?thesis
    unfolding cube_def self_def kt_def by simp
qed

text \<open>
  C4. The specification asks that constructing a layer with neither \<^verbatim>\<open>coords\<close> nor
  \<^verbatim>\<open>(cell_size, npix)\<close> fails at construction time. \<^verbatim>\<open>FourierCube()\<close> does not fail:
  neither branch of the \<^verbatim>\<open>if/elif\<close> is taken and the object is returned without a
  \<^verbatim>\<open>coords\<close> attribute, so the error only appears at the first \<^verbatim>\<open>forward\<close>
  (\<open>forward_without_coords\<close>). Supplying both does fail (\<open>init_coords_both_fails\<close>), and
  \<^verbatim>\<open>NuFFTNarrow()\<close> fails at construction (\<open>NuFFTNarrow_init_without_arguments\<close>).
\<close>

theorem FourierCube_init_without_arguments:
  "FourierCube_init GridCoords_new None None None = Inr \<lparr>fc_coords = None, fc_vis = None\<rparr>"
  by (simp add: FourierCube_init_def init_coords_def ebind_def)

text \<open>
  C5. \<^verbatim>\<open>FourierCube.forward\<close> fails on the assertion "cube must be 3D" (the ShapeError
  of the specification) exactly for the inputs whose number of axes is not three.
\<close>

theorem forward_rank_error_iff:
  "FourierCube_forward self cube = Inl (AssertionError ''cube must be 3D'')
     \<longleftrightarrow> dim_tensor cube \<noteq> 3"
  by (auto simp: FourierCube_forward_def ebind_def fftn_def Let_def
           split: option.splits sum.splits if_splits)

text \<open>
  C6. For a \<^verbatim>\<open>NuFFTNarrow\<close> with a cached trajectory: when both \<^verbatim>\<open>uu\<close> and \<^verbatim>\<open>vv\<close>
  are supplied to \<^verbatim>\<open>forward\<close>, the trajectory of the call is the one assembled from
  them, and the result is the same whatever the cache holds; when neither is supplied, the
  trajectory of the call is the cached one.
\<close>

theorem forward_trajectory_choice:
  assumes "nu_k_traj self = Some cached"
  shows "forward_k_traj self (Some u) (Some v) = assemble_ktraj self u v
      \<and> NuFFTNarrow_forward self cube (Some u) (Some v)
          = ebind (assemble_ktraj self u v) (forward_at self cube)
      \<and> NuFFTNarrow_forward (self\<lparr>nu_k_traj := other\<rparr>) cube (Some u) (Some v)
          = NuFFTNarrow_forward self cube (Some u) (Some v)
      \<and> forward_k_traj self None None = Inr cached
      \<and> NuFFTNarrow_forward self cube None None = forward_at self cube cached"
  using assms
  by (simp add: NuFFTNarrow_forward_def forward_k_traj_def ebind_def
        assemble_ktraj_cache_irrelevant forward_at_cache_irrelevant split: sum.splits)

theorem forward_trajectory_choice_witness:
  "nu_k_traj \<lparr>nu_coords = \<lparr>cell_size = 2, npix = 2, dl = 1 / 2\<rparr>,
         nu_nufft_ob = (\<lambda>img k. Inr \<lparr>shape = [1, 1, 2],
                           elems = map complex_of_real (take 2 (elems k))\<rparr>),
         nu_k_traj = Some \<lparr>shape = [2, 2], elems = [0, 0, 0, 0]\<rparr>\<rparr>
     = Some \<lparr>shape = [2, 2], elems = [0, 0, 0, 0]\<rparr>
   \<and> forward_k_traj
        \<lparr>nu_coords = \<lparr>cell_size = 2, npix = 2, dl = 1 / 2\<rparr>,
         nu_nufft_ob = (\<lambda>img k. Inr \<lparr>shape = [1, 1, 2],
                           elems = map complex_of_real (take 2 (elems k))\<rparr>),
         nu_k_traj = Some \<lparr>shape = [2, 2], elems = [0, 0, 0, 0]\<rparr>\<rparr> (Some [1, 2]) (Some [3, 4])
     = Inr \<lparr>shape = [2, 2], elems = [3000 * pi, 4000 * pi, 1000 * pi, 2000 * pi]\<rparr>
   \<and> NuFFTNarrow_forward
        \<lparr>nu_coords = \<lparr>cell_size = 2, npix = 2, dl = 1 / 2\<rparr>,
         nu_nufft_ob = (\<lambda>img k. Inr \<lparr>shape = [1, 1, 2],
                           elems = map complex_of_real (take 2 (elems k))\<rparr>),
         nu_k_traj = Some \<lparr>shape = [2, 2], elems = [0, 0, 0, 0]\<rparr>\<rparr>
        \<lparr>shape = [1, 2, 2], elems = [1, 2, 3, 4]\<rparr> (Some [1, 2]) (Some [3, 4])
     = Inr \<lparr>shape = [1, 2],
            elems = [complex_of_real (12000 * pi), complex_of_real (16000 * pi)]\<rparr>
   \<and> forward_k_traj
        \<lparr>nu_coords = \<lparr>cell_size = 2, npix = 2, dl = 1 / 2\<rparr>,
         nu_nufft_ob = (\<lambda>img k. Inr \<lparr>shape = [1, 1, 2],
                           elems = map complex_of_real (take 2 (elems k))\<rparr>),
         nu_k_traj = Some \<lparr>shape = [2, 2], elems = [0, 0, 0, 0]\<rparr>\<rparr> None None
     = Inr \<lparr>shape = [2, 2], elems = [0, 0, 0, 0]\<rparr>
   \<and> NuFFTNarrow_forward
        \<lparr>nu_coords = \<lparr>cell_size = 2, npix = 2, dl = 1 / 2\<rparr>,
         nu_nufft_ob = (\<lambda>img k. Inr \<lparr>shape = [1, 1, 2],
                           elems = map complex_of_real (take 2 (elems k))\<rparr>),
         nu_k_traj = Some \<lparr>shape = [2, 2], elems = [0, 0, 0, 0]\<rparr>\<rparr>
        \<lparr>shape = [1, 2, 2], elems = [1, 2, 3, 4]\<rparr> None None
     = Inr \<lparr>shape = [1, 2], elems = [0, 0]\<rparr>"
proof -
  define self where "self = \<lparr>nu_coords = \<lparr>cell_size = 2, npix = 2, dl = 1 / 2\<rparr>,
    nu_nufft_ob = (\<lambda>(img :: complex tensor) (k :: real tensor).
      (Inr \<lparr>shape = [1, 1, 2], elems = map complex_of_real (take 2 (elems k))\<rparr>
         :: error + complex tensor)),
    nu_k_traj = Some \<lparr>shape = [2, 2], elems = [0, 0, 0, 0]\<rparr>\<rparr>"
  define cube where "cube = \<lparr>shape = [1, 2, 2], elems = [1, 2, 3, 4 :: real]\<rparr>"
  have h: "nu_k_traj self = Some \<lparr>shape = [2, 2], elems = [0, 0, 0, 0]\<rparr>"
    by (simp add: self_def)
  have a: "assemble_ktraj self [1, 2] [3, 4]
      = Inr \<lparr>shape = [2, 2], elems = [3000 * pi, 4000 * pi, 1000 * pi, 2000 * pi]\<rparr>"
    by (simp add: assemble_ktraj_def klambda_to_radpix_def torch_tensor_def self_def)
  have fa: "forward_at self cube \<lparr>shape = [2, 2], elems = [3000 * pi, 4000 * pi, 1000 * pi, 2000 * pi]\<rparr>
      = Inr \<lparr>shape = [1, 2],
            elems = [complex_of_real (12000 * pi), complex_of_real (16000 * pi)]\<rparr>"
    by (simp add: forward_at_def fftshift_def dim_tensor_def ebind_def select0_def
          scale_tensor_def map_tensor_def self_def cube_def)
  have f0: "forward_at self cube \<lparr>shape = [2, 2], elems = [0, 0, 0, 0]\<rparr>
      = Inr \<lparr>shape = [1, 2], elems = [0, 0]\<rparr>"
    by (simp add: forward_at_def fftshift_def dim_tensor_def ebind_def select0_def
          scale_tensor_def map_tensor_def self_def cube_def)
  from forward_trajectory_choice [OF h, of "[1, 2]" "[3, 4]" cube None]
  have "forward_k_traj self (Some [1, 2]) (Some [3, 4])
      = Inr \<lparr>shape = [2, 2], elems = [3000 * pi, 4000 * pi, 1000 * pi, 2000 * pi]\<rparr>"
    and "NuFFTNarrow_forward self cube (Some [1, 2]) (Some [3, 4])
      = Inr \<lparr>shape = [1, 2],
            elems = [complex_of_real (12000 * pi), complex_of_real (16000 * pi)]\<rparr>"
    and "forward_k_traj self None None = Inr \<lparr>shape = [2, 2], elems = [0, 0, 0, 0]\<rparr>"
    and "NuFFTNarrow_forward self cube None None = Inr \<lparr>shape = [1, 2], elems = [0, 0]\<rparr>"
    by (simp_all only: a fa f0 ebind_def sum.case)
  with h show ?thesis unfolding self_def cube_def by simp
qed

text \<open>
  C7. For a valid image cube (shape \<open>(nchan, npix, npix)\<close> with \<open>npix > 0\<close>) and a
  non-zero cell size, \<^verbatim>\<open>FourierCube.forward\<close> followed by the inverse (division by
  \<open>cell_size\<^sup>2\<close>, inverse discrete Fourier transform over the spatial axes) returns
  the cube, in exact arithmetic.
\<close>

theorem forward_inverse_roundtrip:
  assumes wf: "wf_tensor cube" and sh: "shape cube = [nchan, n, n]" and n: "0 < n"
    and co: "fc_coords self = Some gc" and cs: "cell_size gc \<noteq> 0"
  shows "\<exists>self' vis restored. FourierCube_forward self cube = Inr (self', vis)
      \<and> FourierCube_inverse gc vis = Inr restored
      \<and> restored = to_complex cube \<and> map_tensor Re restored = cube"
proof -
  define F where "F = fft_axis 2 (fft_axis 1 (to_complex cube))"
  define vis where "vis = scale_tensor ((cell_size gc)\<^sup>2) F"
  have run: "FourierCube_forward self cube = Inr (self\<lparr>fc_vis := Some vis\<rparr>, vis)"
    unfolding vis_def F_def by (rule FourierCube_forward_3d [OF sh n n co])
  have "scale_tensor (1 / (cell_size gc)\<^sup>2) vis = F"
    unfolding vis_def using cs by (intro unscale_scale) simp
  moreover have "ifftn F [1, 2] = Inr (to_complex cube)"
    unfolding F_def by (rule ifftn_fftn_12 [OF _ _ n n]) (simp_all add: wf sh)
  ultimately have inv: "FourierCube_inverse gc vis = Inr (to_complex cube)"
    by (simp add: FourierCube_inverse_def)
  have "map_tensor Re (to_complex cube) = cube"
    by (simp add: to_complex_def map_tensor_comp map_tensor_id)
  with run inv show ?thesis by blast
qed

theorem forward_inverse_roundtrip_witness:
  "wf_tensor \<lparr>shape = [1, 2, 2], elems = [1, 2, 3, 4 :: real]\<rparr>
   \<and> shape \<lparr>shape = [1, 2, 2], elems = [1, 2, 3, 4 :: real]\<rparr> = [1, 2, 2]
   \<and> (0 :: nat) < 2
   \<and> fc_coords \<lparr>fc_coords = Some \<lparr>cell_size = 2, npix = 2, dl = 1\<rparr>, fc_vis = None\<rparr>
        = Some \<lparr>cell_size = 2, npix = 2, dl = 1\<rparr>
   \<and> cell_size \<lparr>cell_size = 2, npix = 2, dl = 1\<rparr> \<noteq> 0
   \<and> (\<exists>self' vis. FourierCube_forward
          \<lparr>fc_coords = Some \<lparr>cell_size = 2, npix = 2, dl = 1\<rparr>, fc_vis = None\<rparr>
          \<lparr>shape = [1, 2, 2], elems = [1, 2, 3, 4]\<rparr> = Inr (self', vis)
      \<and> FourierCube_inverse \<lparr>cell_size = 2, npix = 2, dl = 1\<rparr> vis
          = Inr \<lparr>shape = [1, 2, 2], elems = [1, 2, 3, 4]\<rparr>)"
proof -
  define cube where "cube = \<lparr>shape = [1, 2, 2], elems = [1, 2, 3, 4 :: real]\<rparr>"
  define gc where "gc = \<lparr>cell_size = 2, npix = 2, dl = 1\<rparr>"
  define self where "self = \<lparr>fc_coords = Some gc, fc_vis = None\<rparr>"
  have h1: "wf_tensor cube" by (simp add: cube_def wf_tensor_def)
  have h2: "shape cube = [1, 2, 2]" by (simp add: cube_def)
  have h3: "(0 :: nat) < 2" by simp
  have h4: "fc_coords self = Some gc" by (simp add: self_def)
  have h5: "cell_size gc \<noteq> 0" by (simp add: gc_def)
  have c: "to_complex cube = \<lparr>shape = [1, 2, 2], elems = [1, 2, 3, 4]\<rparr>"
    by (simp add: to_complex_def map_tensor_def cube_def)
  from forward_inverse_roundtrip [OF h1 h2 h3 h4 h5]
  obtain self' vis restored where "FourierCube_forward self cube = Inr (self', vis)"
    and "FourierCube_inverse gc vis = Inr restored" and "restored = to_complex cube"
    by (elim exE conjE)
  then have "\<exists>self' vis. FourierCube_forward self cube = Inr (self', vis)
      \<and> FourierCube_inverse gc vis = Inr \<lparr>shape = [1, 2, 2], elems = [1, 2, 3, 4]\<rparr>"
    unfolding c by (intro exI [of _ self'] exI [of _ vis]) simp
  with h1 h2 h3 h4 h5 show ?thesis
    unfolding cube_def gc_def self_def by simp
qed



text \<open>
  C9. A \<^verbatim>\<open>FourierCube.forward\<close> call leaves \<^verbatim>\<open>coords\<close> unchanged: the layer after
  the call is the layer before it with \<^verbatim>\<open>vis\<close> set to the result.
\<close>

theorem forward_writes_only_vis:
  assumes "FourierCube_forward self cube = Inr (self', vis)"
  shows "fc_coords self' = fc_coords self \<and> self' = self\<lparr>fc_vis := Some vis\<rparr>"
  using FourierCube_forward_InrD [OF assms] by simp

theorem forward_writes_only_vis_witness:
  "FourierCube_forward
      \<lparr>fc_coords = Some \<lparr>cell_size = 2, npix = 2, dl = 1\<rparr>, fc_vis = None\<rparr>
      \<lparr>shape = [1, 2, 2], elems = [1, 2, 3, 4]\<rparr>
    = Inr (\<lparr>fc_coords = Some \<lparr>cell_size = 2, npix = 2, dl = 1\<rparr>,
            fc_vis = Some (scale_tensor 4 (fft_axis 2 (fft_axis 1
                       (to_complex \<lparr>shape = [1, 2, 2], elems = [1, 2, 3, 4]\<rparr>))))\<rparr>,
           scale_tensor 4 (fft_axis 2 (fft_axis 1
                       (to_complex \<lparr>shape = [1, 2, 2], elems = [1, 2, 3, 4]\<rparr>))))
   \<and> fc_coords \<lparr>fc_coords = Some \<lparr>cell_size = 2, npix = 2, dl = 1\<rparr>,
            fc_vis = Some (scale_tensor 4 (fft_axis 2 (fft_axis 1
                       (to_complex \<lparr>shape = [1, 2, 2], elems = [1, 2, 3, 4]\<rparr>))))\<rparr>
       = fc_coords \<lparr>fc_coords = Some \<lparr>cell_size = 2, npix = 2, dl = 1\<rparr>, fc_vis = None\<rparr>"
proof -
  define cube where "cube = \<lparr>shape = [1, 2, 2], elems = [1, 2, 3, 4 :: real]\<rparr>"
  define gc where "gc = \<lparr>cell_size = 2, npix = 2, dl = 1\<rparr>"
  define self where "self = \<lparr>fc_coords = Some gc, fc_vis = None\<rparr>"
  define V where "V = scale_tensor 4 (fft_axis 2 (fft_axis 1 (to_complex cube)))"
  have h2: "shape cube = [1, 2, 2]" by (simp add: cube_def)
  have "FourierCube_forward self cube =
    Inr (self\<lparr>fc_vis := Some (scale_tensor ((cell_size gc)\<^sup>2)
                (fft_axis 2 (fft_axis 1 (to_complex cube))))\<rparr>,
         scale_tensor ((cell_size gc)\<^sup>2) (fft_axis 2 (fft_axis 1 (to_complex cube))))"
    by (rule FourierCube_forward_3d [OF h2]) (simp_all add: self_def)
  then have h1: "FourierCube_forward self cube = Inr (self\<lparr>fc_vis := Some V\<rparr>, V)"
    by (simp add: gc_def V_def)
  from forward_writes_only_vis [OF h1]
  have "fc_coords (self\<lparr>fc_vis := Some V\<rparr>) = fc_coords self" by simp
  with h1 show ?thesis
    unfolding cube_def gc_def self_def V_def by simp
qed

text \<open>
  C10. For a \<^verbatim>\<open>NuFFTNarrow\<close> with a cached trajectory, a \<^verbatim>\<open>forward\<close> call that
  supplies only one of \<^verbatim>\<open>uu\<close> and \<^verbatim>\<open>vv\<close> raises no error for that: it ignores the
  supplied array and transforms at the cached trajectory.
\<close>

theorem forward_partial_uv_uses_cache:
  assumes "nu_k_traj self = Some cached"
  shows "forward_k_traj self (Some u) None = Inr cached
      \<and> forward_k_traj self None (Some v) = Inr cached
      \<and> NuFFTNarrow_forward self cube (Some u) None = forward_at self cube cached
      \<and> NuFFTNarrow_forward self cube None (Some v) = forward_at self cube cached"
  using assms by (simp add: NuFFTNarrow_forward_def forward_k_traj_def ebind_def)

theorem forward_partial_uv_uses_cache_witness:
  "nu_k_traj \<lparr>nu_coords = \<lparr>cell_size = 2, npix = 2, dl = 1 / 2\<rparr>,
         nu_nufft_ob = (\<lambda>img k. Inr \<lparr>shape = [1, 1, 2],
                           elems = map complex_of_real (take 2 (elems k))\<rparr>),
         nu_k_traj = Some \<lparr>shape = [2, 2], elems = [5, 6, 7, 8]\<rparr>\<rparr>
     = Some \<lparr>shape = [2, 2], elems = [5, 6, 7, 8]\<rparr>
   \<and> forward_k_traj
        \<lparr>nu_coords = \<lparr>cell_size = 2, npix = 2, dl = 1 / 2\<rparr>,
         nu_nufft_ob = (\<lambda>img k. Inr \<lparr>shape = [1, 1, 2],
                           elems = map complex_of_real (take 2 (elems k))\<rparr>),
         nu_k_traj = Some \<lparr>shape = [2, 2], elems = [5, 6, 7, 8]\<rparr>\<rparr> (Some [1, 2]) None
     = Inr \<lparr>shape = [2, 2], elems = [5, 6, 7, 8]\<rparr>
   \<and> NuFFTNarrow_forward
        \<lparr>nu_coords = \<lparr>cell_size = 2, npix = 2, dl = 1 / 2\<rparr>,
         nu_nufft_ob = (\<lambda>img k. Inr \<lparr>shape = [1, 1, 2],
                           elems = map complex_of_real (take 2 (elems k))\<rparr>),
         nu_k_traj = Some \<lparr>shape = [2, 2], elems = [5, 6, 7, 8]\<rparr>\<rparr>
        \<lparr>shape = [1, 2, 2], elems = [1, 2, 3, 4]\<rparr> (Some [1, 2]) None
     = Inr \<lparr>shape = [1, 2], elems = [20, 24]\<rparr>
   \<and> NuFFTNarrow_forward
        \<lparr>nu_coords = \<lparr>cell_size = 2, npix = 2, dl = 1 / 2\<rparr>,
         nu_nufft_ob = (\<lambda>img k. Inr \<lparr>shape = [1, 1, 2],
                           elems = map complex_of_real (take 2 (elems k))\<rparr>),
         nu_k_traj = Some \<lparr>shape = [2, 2], elems = [5, 6, 7, 8]\<rparr>\<rparr>
        \<lparr>shape = [1, 2, 2], elems = [1, 2, 3, 4]\<rparr> None (Some [3, 4])
     = Inr \<lparr>shape = [1, 2], elems = [20, 24]\<rparr>"
proof -
  define self where "self = \<lparr>nu_coords = \<lparr>cell_size = 2, npix = 2, dl = 1 / 2\<rparr>,
    nu_nufft_ob = (\<lambda>(img :: complex tensor) (k :: real tensor).
      (Inr \<lparr>shape = [1, 1, 2], elems = map complex_of_real (take 2 (elems k))\<rparr>
         :: error + complex tensor)),
    nu_k_traj = Some \<lparr>shape = [2, 2], elems = [5, 6, 7, 8]\<rparr>\<rparr>"
  define cube where "cube = \<lparr>shape = [1, 2, 2], elems = [1, 2, 3, 4 :: real]\<rparr>"
  have h: "nu_k_traj self = Some \<lparr>shape = [2, 2], elems = [5, 6, 7, 8]\<rparr>"
    by (simp add: self_def)
  have f0: "forward_at self cube \<lparr>shape = [2, 2], elems = [5, 6, 7, 8]\<rparr>
      = Inr \<lparr>shape = [1, 2], elems = [20, 24]\<rparr>"
    by (simp add: forward_at_def fftshift_def dim_tensor_def ebind_def select0_def
          scale_tensor_def map_tensor_def self_def cube_def)
  from forward_partial_uv_uses_cache [OF h, of "[1, 2]" "[3, 4]" cube]
  have "forward_k_traj self (Some [1, 2]) None = Inr \<lparr>shape = [2, 2], elems = [5, 6, 7, 8]\<rparr>"
    and "NuFFTNarrow_forward self cube (Some [1, 2]) None = Inr \<lparr>shape = [1, 2], elems = [20, 24]\<rparr>"
    and "NuFFTNarrow_forward self cube None (Some [3, 4]) = Inr \<lparr>shape = [1, 2], elems = [20, 24]\<rparr>"
    by (simp_all only: f0)
  with h show ?thesis unfolding self_def cube_def by simp
qed

end
